theory Spec2Isabelle
  imports Complex_Main "HOL-Library.List_Lexorder" "HOL-Library.Char_ord"
begin

section \<open>Calendar dates\<close>

text \<open>
  A calendar date is its proleptic Gregorian ordinal, the number that Python's
  \<^verbatim>\<open>date.toordinal()\<close> returns (day 1 is 0001-01-01).  Subtracting a
  \<^verbatim>\<open>timedelta(days=n)\<close> subtracts \<open>n\<close>, and the difference of
  two dates is the difference of the ordinals.  The frame's \<^verbatim>\<open>Posted date\<close>
  column holds timestamps (datetime64); the engine takes \<^verbatim>\<open>.date()\<close>, the month
  and the monthly period of them, which depend on the calendar day alone, so a timestamp
  is modelled by its day.  The range limits of the date types (years 1 to 9999) are not
  modelled.

  \<open>ymd2ord\<close> and \<open>ord2ymd\<close> follow the standard library's conversion between a
  (year, month, day) triple and the ordinal.
\<close>

type_synonym date = int

definition is_leap :: "int \<Rightarrow> bool" where
  "is_leap y = (y mod 4 = 0 \<and> (y mod 100 \<noteq> 0 \<or> y mod 400 = 0))"

definition days_in_month_tab :: "nat \<Rightarrow> int" where
  "days_in_month_tab m = [0, 31, 28, 31, 30, 31, 30, 31, 31, 30, 31, 30, 31] ! m"

definition days_before_month_tab :: "nat \<Rightarrow> int" where
  "days_before_month_tab m =
     [0, 0, 31, 59, 90, 120, 151, 181, 212, 243, 273, 304, 334] ! m"

definition days_before_year :: "int \<Rightarrow> int" where
  "days_before_year year =
     (let y = year - 1 in y * 365 + y div 4 - y div 100 + y div 400)"

definition ymd2ord :: "int \<Rightarrow> nat \<Rightarrow> nat \<Rightarrow> date" where
  "ymd2ord year month day =
     days_before_year year
     + (days_before_month_tab month + (if month > 2 \<and> is_leap year then 1 else 0))
     + int day"

definition ord2ymd :: "date \<Rightarrow> int \<times> nat \<times> nat" where
  "ord2ymd n0 =
     (let n = n0 - 1;
          n400 = n div 146097; n = n mod 146097;
          n100 = n div 36524; n = n mod 36524;
          n4 = n div 1461; n = n mod 1461;
          n1 = n div 365; n = n mod 365;
          year = n400 * 400 + 1 + n100 * 100 + n4 * 4 + n1
      in if n1 = 4 \<or> n100 = 4 then (year - 1, 12, 31)
         else
           let leapyear = (n1 = 3 \<and> (n4 \<noteq> 24 \<or> n100 = 3));
               month = nat ((n + 50) div 32);
               preceding = days_before_month_tab month
                            + (if month > 2 \<and> leapyear then 1 else 0)
           in if preceding > n
              then (let month' = month - 1;
                        preceding' = preceding
                          - (days_in_month_tab month'
                             + (if month' = 2 \<and> leapyear then 1 else 0))
                    in (year, month', nat (n - preceding') + 1))
              else (year, month, nat (n - preceding) + 1))"

definition dt_month :: "date \<Rightarrow> nat" where
  "dt_month d = (case ord2ymd d of (y, m, dd) \<Rightarrow> m)"

text \<open>The monthly period of a date, as the ordinal of \<^verbatim>\<open>dt.to_period('M')\<close>:
  months since January 1970.  Periods are grouped and sorted by this number.\<close>

definition to_period_M :: "date \<Rightarrow> int" where
  "to_period_M d = (case ord2ymd d of (y, m, dd) \<Rightarrow> (y - 1970) * 12 + int m - 1)"


section \<open>Data model (models.py)\<close>

datatype error = ZeroDivisionError | ValidationError | TypeError

text \<open>A float that may be NaN: \<open>None\<close> is NaN.  Floats and Decimals are otherwise
  idealised as exact reals.\<close>

type_synonym pyfloat = "real option"

record analytics_config =
  today_date :: date
  dormant_days_threshold :: int
  analysis_period_months :: int
  high_value_threshold :: real
  quick_win_threshold :: real
  min_orders_for_pattern :: int

text \<open>A row of the raw sales frame after the two lenient conversions
  (\<^verbatim>\<open>pd.to_datetime\<close> and \<^verbatim>\<open>pd.to_numeric\<close> with
  \<^verbatim>\<open>errors='coerce'\<close>): a cell that is missing or failed to convert is
  \<open>None\<close>.  The frame is assumed to have the seven columns the engine reads.\<close>

record raw_row =
  raw_invoice_date :: "date option"
  raw_posted_date :: "date option"
  raw_customer :: "string option"
  raw_salesperson :: "string option"
  raw_item :: "string option"
  raw_qty :: int
  raw_net_price :: "real option"

text \<open>A row of the cleaned frame: posted date and customer are present, the price
  is a number.  The reconciler adds the column \<^verbatim>\<open>Salesperson_Original\<close>.\<close>

record sales_row =
  Invoice_date :: "date option"
  Posted_date :: date
  Customer :: string
  Salesperson :: "string option"
  Item :: "string option"
  Qty :: int
  Net_price :: real

record mapped_row = sales_row +
  Salesperson_Original :: "string option"

record dormant_customer =
  customer :: string
  salesperson :: string
  last_order_date :: date
  days_since_order :: int
  total_6_month_value :: real
  order_count_6_months :: nat
  average_order_value :: real
  churn_risk_score :: real
  customer_lifetime_value :: real
  preferred_products :: "string list"
  seasonal_pattern :: "string option"

record salesperson_summary =
  ss_salesperson :: string
  dormant_customer_count :: nat
  total_value_at_risk :: real
  high_value_dormant_count :: nat
  quick_win_count :: nat
  average_churn_risk :: real

text \<open>The recommendation strings are kept as the values their templates are filled
  with: \<^verbatim>\<open>"{n} invalid dates in {col}"\<close> and \<^verbatim>\<open>"{n} invalid prices"\<close>.\<close>

datatype issue = Invalid_dates_in nat string | Invalid_prices nat

record data_quality_report =
  total_records :: int
  valid_records :: int
  duplicate_records :: int
  missing_customer_mappings :: int
  invalid_dates :: int
  invalid_prices :: int
  data_completeness_score :: real
  recommendations :: "issue list"


section \<open>AdvancedAnalytics (data_processor.py)\<close>

text \<open>\<^verbatim>\<open>groupby(to_period('M'))['Net price'].sum().sort_index()\<close>: one sum per
  distinct month, in month order.\<close>

definition monthly_spending :: "'a sales_row_scheme list \<Rightarrow> real list" where
  "monthly_spending customer_data =
     map (\<lambda>p. sum_list (map Net_price
                 (filter (\<lambda>r. to_period_M (Posted_date r) = p) customer_data)))
         (sort (remdups (map (\<lambda>r. to_period_M (Posted_date r)) customer_data)))"

text \<open>\<^verbatim>\<open>np.polyfit(x, y, 1)[0]\<close> with \<open>x = 0, 1, ..., n - 1\<close>: the slope of the
  least-squares line.\<close>

definition polyfit_slope :: "real list \<Rightarrow> real" where
  "polyfit_slope y =
     (let n = length y;
          x = map real [0..<n];
          xbar = sum_list x / real n;
          ybar = sum_list y / real n
      in sum_list (map2 (\<lambda>xi yi. (xi - xbar) * (yi - ybar)) x y)
         / sum_list (map (\<lambda>xi. (xi - xbar) ^ 2) x))"

text \<open>The normalised slope \<^verbatim>\<open>max(min(slope / np.mean(y) + 0.5, 1), 0)\<close>.  A
  numpy division by zero does not raise: a non-zero slope over a zero mean is an
  infinity, which \<open>min\<close> and \<open>max\<close> clamp, and zero over zero is NaN, which passes
  through both unchanged.\<close>

definition normalised_slope :: "real list \<Rightarrow> pyfloat" where
  "normalised_slope y =
     (let slope = polyfit_slope y;
          mean = sum_list y / real (length y)
      in if mean = 0
         then (if slope = 0 then None else if slope > 0 then Some 1 else Some 0)
         else Some (max (min (slope / mean + 0.5) 1) 0))"

definition calculate_value_trend :: "'a sales_row_scheme list \<Rightarrow> pyfloat" where
  "calculate_value_trend customer_data =
     (if length customer_data < 3 then Some 0.5
      else
        let y = monthly_spending customer_data
        in if length y < 2 then Some 0.5
           else if length y \<ge> 2 then normalised_slope y
           else Some 0.5)"

definition calculate_churn_risk_score ::
  "'a sales_row_scheme list \<Rightarrow> analytics_config \<Rightarrow> error + pyfloat" where
  "calculate_churn_risk_score customer_data config =
     (if customer_data = [] then Inr (Some 0.5)
      else
        let days_since_last_order =
              today_date config - Max (set (map Posted_date customer_data))
        in if analysis_period_months config * 30 = 0 then Inl ZeroDivisionError
           else
             let order_frequency = real (length customer_data)
                                   / real_of_int (analysis_period_months config * 30);
                 avg_order_value = sum_list (map Net_price customer_data)
                                   / real (length customer_data);
                 value_trend = calculate_value_trend customer_data;
                 recency_score = min (real_of_int days_since_last_order / 90) 1;
                 frequency_score = max (1 - order_frequency) 0;
                 value_score = max (1 - avg_order_value / 1000) 0
             in Inr (case value_trend of
                       None \<Rightarrow> None
                     | Some vt \<Rightarrow>
                         let trend_score = max (1 - vt) 0;
                             risk_score = recency_score * 0.4 + frequency_score * 0.3
                                          + value_score * 0.2 + trend_score * 0.1
                         in Some (min (max risk_score 0) 1)))"

text \<open>\<^verbatim>\<open>round(clv, 2)\<close>: to two decimals, a tie going to the even neighbour.  It
  rounds the exact value of the idealised arithmetic; the code rounds the double it
  holds, which differs by a cent where the double and the exact value lie on different
  sides of a rounding boundary.\<close>

definition round2 :: "real \<Rightarrow> real" where
  "round2 x =
     (let y = x * 100; f = \<lfloor>y\<rfloor>; d = y - real_of_int f
      in real_of_int (if d < 1 / 2 then f else if d > 1 / 2 then f + 1
                      else if even f then f else f + 1) / 100)"

definition calculate_customer_lifetime_value :: "'a sales_row_scheme list \<Rightarrow> real" where
  "calculate_customer_lifetime_value customer_data =
     (if customer_data = [] then 0
      else
        let total_spent = sum_list (map Net_price customer_data);
            order_count = length customer_data;
            avg_order_value = (if order_count > 0 then total_spent / real order_count else 0);
            estimated_annual_orders = max (order_count * 2) 6;
            clv = avg_order_value * real estimated_annual_orders
        in round2 clv)"

text \<open>\<^verbatim>\<open>groupby(dt.month).size()\<close> as (month, count) pairs in month order, and
  \<^verbatim>\<open>idxmax()\<close>: the first month that has the largest count.\<close>

definition monthly_orders :: "'a sales_row_scheme list \<Rightarrow> (nat \<times> nat) list" where
  "monthly_orders customer_data =
     map (\<lambda>m. (m, length (filter (\<lambda>r. dt_month (Posted_date r) = m) customer_data)))
         (sort (remdups (map (\<lambda>r. dt_month (Posted_date r)) customer_data)))"

fun idxmax :: "('k \<times> nat) list \<Rightarrow> 'k \<Rightarrow> nat \<Rightarrow> 'k" where
  "idxmax [] best n = best"
| "idxmax ((k, c) # rest) best n = (if c > n then idxmax rest k c else idxmax rest best n)"

definition seasonal_map :: "(nat list \<times> string) list" where
  "seasonal_map = [([12, 1, 2], ''Winter''), ([3, 4, 5], ''Spring''),
                   ([6, 7, 8], ''Summer''), ([9, 10, 11], ''Fall'')]"

fun season_of :: "(nat list \<times> string) list \<Rightarrow> nat \<Rightarrow> string" where
  "season_of [] peak_month = ''No clear pattern''"
| "season_of ((months, season) # rest) peak_month =
     (if peak_month \<in> set months then season @ '' buyer'' else season_of rest peak_month)"

definition identify_seasonal_patterns :: "'a sales_row_scheme list \<Rightarrow> string option" where
  "identify_seasonal_patterns customer_data =
     (if length customer_data < 6 then None
      else
        case monthly_orders customer_data of
          [] \<Rightarrow> None
        | (m, c) # rest \<Rightarrow> Some (season_of seasonal_map (idxmax rest m c)))"

text \<open>\<^verbatim>\<open>groupby('Item')['Qty'].sum().nlargest(3).index.tolist()\<close>: the groups are the
  non-null items in sorted order; \<open>nlargest\<close> orders them by sum, largest first, equal
  sums in group order, and keeps three.\<close>

definition product_prefs :: "'a sales_row_scheme list \<Rightarrow> string list" where
  "product_prefs customer_data =
     map fst (take 3 (sort_key (\<lambda>(i, q). - q)
       (map (\<lambda>i. (i, sum_list (map Qty (filter (\<lambda>r. Item r = Some i) customer_data))))
            (sort (remdups (List.map_filter Item customer_data))))))"


section \<open>DormantCustomerProcessor: the dormancy selector\<close>

definition cutoff_date :: "analytics_config \<Rightarrow> date" where
  "cutoff_date config = today_date config - dormant_days_threshold config"

definition analysis_start :: "analytics_config \<Rightarrow> date" where
  "analysis_start config = today_date config - analysis_period_months config * 30"

text \<open>An ordering comparison of a datetime64 column with a scalar.  pandas compares
  element by element when the scalar is a datetime (or Timestamp); a plain
  \<^verbatim>\<open>datetime.date\<close> is not a scalar it recognises, and the comparison raises
  \<^verbatim>\<open>TypeError: Invalid comparison between dtype=datetime64[ns] and date\<close>,
  whatever the column holds, an empty column included.\<close>

datatype scalar = A_date date | A_datetime date

definition compare_datetime64 ::
  "(date \<Rightarrow> date \<Rightarrow> bool) \<Rightarrow> date list \<Rightarrow> scalar \<Rightarrow> error + bool list" where
  "compare_datetime64 cmp column other =
     (case other of
        A_datetime t \<Rightarrow> Inr (map (\<lambda>d. cmp d t) column)
      | A_date t \<Rightarrow> Inl TypeError)"

text \<open>Boolean indexing \<^verbatim>\<open>df[mask]\<close>.\<close>

definition select_rows :: "bool list \<Rightarrow> 'a list \<Rightarrow> 'a list" where
  "select_rows keep rows = map snd (filter fst (zip keep rows))"

text \<open>\<^verbatim>\<open>today_date\<close> is a \<^verbatim>\<open>datetime.date\<close>, and so are the two bounds, each
  a date minus a \<^verbatim>\<open>timedelta\<close>; the column \<^verbatim>\<open>Posted date\<close> is datetime64:
  the validator converts it with \<^verbatim>\<open>pd.to_datetime\<close>, and the repository's tests
  of the selector build it the same way.  A frame whose column holds plain date objects
  is not modelled.\<close>

definition period_sales ::
  "analytics_config \<Rightarrow> 'a sales_row_scheme list \<Rightarrow> error + 'a sales_row_scheme list" where
  "period_sales config sales_df =
     (case compare_datetime64 (\<lambda>d t. d \<ge> t) (map Posted_date sales_df)
             (A_date (analysis_start config)) of
        Inl e \<Rightarrow> Inl e
      | Inr keep \<Rightarrow> Inr (select_rows keep sales_df))"

text \<open>\<^verbatim>\<open>groupby('Customer')['Posted date'].max()\<close>: one row per customer of the
  frame, in sorted customer order, with that customer's latest posted date.\<close>

definition customer_last_orders :: "'a sales_row_scheme list \<Rightarrow> (string \<times> date) list" where
  "customer_last_orders df =
     map (\<lambda>c. (c, Max (set (map Posted_date (filter (\<lambda>r. Customer r = c) df)))))
         (sort (remdups (map Customer df)))"

text \<open>The dormant mask over the last orders of the windowed frame, and the names it
  selects.\<close>

definition dormant_customer_names ::
  "analytics_config \<Rightarrow> 'a sales_row_scheme list \<Rightarrow> error + string list" where
  "dormant_customer_names config period_df =
     (let last_orders = customer_last_orders period_df
      in case compare_datetime64 (\<lambda>d t. d \<ge> t) (map snd last_orders)
                (A_date (analysis_start config)) of
           Inl e \<Rightarrow> Inl e
         | Inr lower \<Rightarrow>
             (case compare_datetime64 (\<lambda>d t. d < t) (map snd last_orders)
                     (A_date (cutoff_date config)) of
                Inl e \<Rightarrow> Inl e
              | Inr upper \<Rightarrow>
                  Inr (map fst (select_rows (map2 (\<and>) lower upper) last_orders))))"

text \<open>The constructor of the \<^verbatim>\<open>DormantCustomer\<close> model validates its fields:
  \<^verbatim>\<open>salesperson: str\<close> rejects a null cell, and
  \<^verbatim>\<open>churn_risk_score: float = Field(ge=0, le=1)\<close> rejects NaN and anything
  outside the unit interval.\<close>

definition DormantCustomer ::
  "string \<Rightarrow> string option \<Rightarrow> date \<Rightarrow> int \<Rightarrow> real \<Rightarrow> nat \<Rightarrow> real \<Rightarrow> pyfloat \<Rightarrow> real
   \<Rightarrow> string list \<Rightarrow> string option \<Rightarrow> error + dormant_customer" where
  "DormantCustomer c sp lod dso tv oc aov crs clv pp seas =
     (case sp of
        None \<Rightarrow> Inl ValidationError
      | Some rep \<Rightarrow>
          (case crs of
             None \<Rightarrow> Inl ValidationError
           | Some score \<Rightarrow>
               if 0 \<le> score \<and> score \<le> 1
               then Inr \<lparr>customer = c, salesperson = rep, last_order_date = lod,
                         days_since_order = dso, total_6_month_value = tv,
                         order_count_6_months = oc, average_order_value = aov,
                         churn_risk_score = score, customer_lifetime_value = clv,
                         preferred_products = pp, seasonal_pattern = seas\<rparr>
               else Inl ValidationError))"

text \<open>The body of the loop over the dormant names, for one customer with a non-empty
  set of windowed rows (\<open>first\<close> is \<^verbatim>\<open>iloc[0]\<close>).\<close>

definition analyse_customer ::
  "analytics_config \<Rightarrow> string \<Rightarrow> 'a sales_row_scheme \<Rightarrow> 'a sales_row_scheme list
   \<Rightarrow> error + dormant_customer" where
  "analyse_customer config c first others =
     (let customer_data = first # others
      in case calculate_churn_risk_score customer_data config of
           Inl e \<Rightarrow> Inl e
         | Inr churn_risk \<Rightarrow>
             let clv = calculate_customer_lifetime_value customer_data;
                 seasonal = identify_seasonal_patterns customer_data;
                 prefs = product_prefs customer_data;
                 last = Max (set (map Posted_date customer_data))
             in DormantCustomer c (Salesperson first) last (today_date config - last)
                  (sum_list (map Net_price customer_data)) (length customer_data)
                  (sum_list (map Net_price customer_data) / real (length customer_data))
                  churn_risk clv prefs seasonal)"

fun analyse_customers ::
  "analytics_config \<Rightarrow> 'a sales_row_scheme list \<Rightarrow> string list
   \<Rightarrow> error + dormant_customer list" where
  "analyse_customers config ps [] = Inr []"
| "analyse_customers config ps (c # cs) =
     (case filter (\<lambda>r. Customer r = c) ps of
        [] \<Rightarrow> analyse_customers config ps cs
      | first # others \<Rightarrow>
          (case analyse_customer config c first others of
             Inl e \<Rightarrow> Inl e
           | Inr d \<Rightarrow>
               (case analyse_customers config ps cs of
                  Inl e \<Rightarrow> Inl e
                | Inr ds \<Rightarrow> Inr (d # ds))))"

definition identify_dormant_customers ::
  "analytics_config \<Rightarrow> 'a sales_row_scheme list \<Rightarrow> error + dormant_customer list" where
  "identify_dormant_customers config sales_df =
     (case period_sales config sales_df of
        Inl e \<Rightarrow> Inl e
      | Inr period_df \<Rightarrow>
          (case dormant_customer_names config period_df of
             Inl e \<Rightarrow> Inl e
           | Inr names \<Rightarrow> analyse_customers config period_df names))"


section \<open>The representative aggregator\<close>

text \<open>\<^verbatim>\<open>rep_data\<close> is a dictionary, iterated in insertion order: an association
  list whose keys are kept distinct, a new key going to the end.\<close>

record rep_entry =
  acc_customers :: "dormant_customer list"
  acc_total_value :: real
  acc_high_value_count :: nat
  acc_quick_win_count :: nat
  acc_risk_scores :: "real list"

definition new_entry :: rep_entry where
  "new_entry = \<lparr>acc_customers = [], acc_total_value = 0, acc_high_value_count = 0,
                acc_quick_win_count = 0, acc_risk_scores = []\<rparr>"

fun update_entry ::
  "string \<Rightarrow> (rep_entry \<Rightarrow> rep_entry) \<Rightarrow> (string \<times> rep_entry) list
   \<Rightarrow> (string \<times> rep_entry) list" where
  "update_entry rep f [] = []"
| "update_entry rep f ((k, v) # rest) =
     (if k = rep then (k, f v) # rest else (k, v) # update_entry rep f rest)"

definition add_customer ::
  "analytics_config \<Rightarrow> dormant_customer \<Rightarrow> (string \<times> rep_entry) list
   \<Rightarrow> (string \<times> rep_entry) list" where
  "add_customer config c rep_data =
     (let rep = salesperson c;
          rep_data' = (if rep \<notin> set (map fst rep_data)
                       then rep_data @ [(rep, new_entry)] else rep_data)
      in update_entry rep
           (\<lambda>d. let d1 = d\<lparr>acc_customers := acc_customers d @ [c],
                             acc_total_value := acc_total_value d + total_6_month_value c,
                             acc_risk_scores := acc_risk_scores d @ [churn_risk_score c]\<rparr>
                 in if total_6_month_value c \<ge> high_value_threshold config
                    then d1\<lparr>acc_high_value_count := acc_high_value_count d1 + 1\<rparr>
                    else if total_6_month_value c \<le> quick_win_threshold config
                    then d1\<lparr>acc_quick_win_count := acc_quick_win_count d1 + 1\<rparr>
                    else d1)
           rep_data')"

definition mean :: "real list \<Rightarrow> real" where
  "mean xs = sum_list xs / real (length xs)"

definition summary_of :: "string \<times> rep_entry \<Rightarrow> salesperson_summary" where
  "summary_of e =
     (case e of (rep, d) \<Rightarrow>
        \<lparr>ss_salesperson = rep,
         dormant_customer_count = length (acc_customers d),
         total_value_at_risk = acc_total_value d,
         high_value_dormant_count = acc_high_value_count d,
         quick_win_count = acc_quick_win_count d,
         average_churn_risk =
           (if acc_risk_scores d \<noteq> [] then mean (acc_risk_scores d) else 0)\<rparr>)"

text \<open>\<^verbatim>\<open>sorted(summaries, key=..., reverse=True)\<close> is stable: summaries with equal
  totals keep their order.\<close>

definition generate_salesperson_summaries ::
  "analytics_config \<Rightarrow> dormant_customer list \<Rightarrow> salesperson_summary list" where
  "generate_salesperson_summaries config dormant_customers =
     sort_key (\<lambda>s. - total_value_at_risk s)
       (map summary_of (fold (add_customer config) dormant_customers []))"


section \<open>The insight synthesizer\<close>

text \<open>An insight text is kept as the values its template is filled with.  The
  insights are a dictionary in insertion order.\<close>

datatype message =
    Plain string
  | Focus_on string real nat real
  | Prioritize_outreach string real string real
  | Quick_win_opportunities string nat
  | Seasonal_customers nat string

text \<open>\<^verbatim>\<open>max(xs, key=f)\<close> returns the first element whose key is largest.\<close>

fun max_by :: "('a \<Rightarrow> 'b::linorder) \<Rightarrow> 'a \<Rightarrow> 'a list \<Rightarrow> 'a" where
  "max_by f best [] = best"
| "max_by f best (x # xs) = (if f x > f best then max_by f x xs else max_by f best xs)"

fun count_pattern :: "string \<Rightarrow> (string \<times> nat) list \<Rightarrow> (string \<times> nat) list" where
  "count_pattern p [] = [(p, 1)]"
| "count_pattern p ((k, n) # rest) =
     (if k = p then (k, n + 1) # rest else (k, n) # count_pattern p rest)"

definition truthy :: "string option \<Rightarrow> bool" where
  "truthy v = (case v of None \<Rightarrow> False | Some s \<Rightarrow> s \<noteq> [])"

definition generate_insights ::
  "dormant_customer list \<Rightarrow> salesperson_summary list \<Rightarrow> (string \<times> message) list" where
  "generate_insights dormant_customers summaries =
     (case (dormant_customers, summaries) of
        (c0 # cs, top_rep # ss) \<Rightarrow>
          (let top_customer = max_by total_6_month_value c0 cs;
               quick_wins = filter (\<lambda>s. quick_win_count s > 0) summaries;
               seasonal_customers = filter (\<lambda>c. truthy (seasonal_pattern c)) dormant_customers;
               patterns = fold (\<lambda>c. count_pattern (the (seasonal_pattern c)))
                               seasonal_customers []
           in [(''top_priority_rep'',
                Focus_on (ss_salesperson top_rep) (total_value_at_risk top_rep)
                  (dormant_customer_count top_rep) (average_churn_risk top_rep)),
               (''top_priority_customer'',
                Prioritize_outreach (customer top_customer) (total_6_month_value top_customer)
                  (salesperson top_customer) (churn_risk_score top_customer))]
              @ (case quick_wins of
                   [] \<Rightarrow> []
                 | q # qs \<Rightarrow>
                     (let best_quick_win = max_by quick_win_count q qs
                      in [(''quick_wins'',
                           Quick_win_opportunities (ss_salesperson best_quick_win)
                             (quick_win_count best_quick_win))]))
              @ (case patterns of
                   [] \<Rightarrow> []
                 | p # ps \<Rightarrow>
                     (let top_pattern = max_by snd p ps
                      in [(''seasonal_insight'',
                           Seasonal_customers (snd top_pattern) (fst top_pattern))])))
      | _ \<Rightarrow> [(''error'', Plain ''No dormant customers found for analysis'')])"


section \<open>The accuracy scorer\<close>

definition calculate_accuracy_score :: "data_quality_report \<Rightarrow> real" where
  "calculate_accuracy_score quality_report =
     (if total_records quality_report = 0 then 0
      else
        let completeness_weight = 0.4;
            validity_weight = 0.3;
            mapping_weight = 0.3;
            completeness_score = data_completeness_score quality_report;
            validity_score = 1 - real_of_int (invalid_dates quality_report
                                              + invalid_prices quality_report)
                                 / real_of_int (total_records quality_report);
            mapping_score = 1 - real_of_int (missing_customer_mappings quality_report)
                                / real_of_int (total_records quality_report);
            accuracy_score = completeness_score * completeness_weight
                             + validity_score * validity_weight
                             + mapping_score * mapping_weight
        in min (max accuracy_score 0) 1)"


section \<open>DataValidator\<close>

definition isna_sum :: "'a option list \<Rightarrow> nat" where
  "isna_sum cells = length (filter (\<lambda>v. v = None) cells)"

definition fillna0 :: "raw_row \<Rightarrow> raw_row" where
  "fillna0 r = r\<lparr>raw_net_price := Some (case raw_net_price r of None \<Rightarrow> 0 | Some p \<Rightarrow> p)\<rparr>"

text \<open>\<^verbatim>\<open>dropna(subset=['Posted date', 'Customer'])\<close> keeps the rows that have both
  cells; such a row of the filled frame is a row of the cleaned frame.\<close>

definition clean_row :: "raw_row \<Rightarrow> sales_row option" where
  "clean_row r =
     (case (raw_posted_date r, raw_customer r, raw_net_price r) of
        (Some d, Some c, Some p) \<Rightarrow>
          Some \<lparr>Invoice_date = raw_invoice_date r, Posted_date = d, Customer = c,
                Salesperson = raw_salesperson r, Item = raw_item r, Qty = raw_qty r,
                Net_price = p\<rparr>
      | _ \<Rightarrow> None)"

text \<open>\<^verbatim>\<open>duplicated().sum()\<close>: the rows equal to an earlier row.\<close>

fun duplicated_sum :: "'a list \<Rightarrow> nat" where
  "duplicated_sum [] = 0"
| "duplicated_sum (x # xs) = duplicated_sum (filter (\<lambda>y. y \<noteq> x) xs)
                              + length (filter (\<lambda>y. y = x) xs)"

definition validate_sales_data :: "raw_row list \<Rightarrow> sales_row list \<times> data_quality_report" where
  "validate_sales_data df0 =
     (let initial_count = length df0;
          issues = concat (map (\<lambda>(col, cells).
                      let invalid_dates = isna_sum cells
                      in if invalid_dates > 0 then [Invalid_dates_in invalid_dates col] else [])
                    [(''Invoice date'', map raw_invoice_date df0),
                     (''Posted date'', map raw_posted_date df0)]);
          invalid_prices = isna_sum (map raw_net_price df0);
          issues = issues @ (if invalid_prices > 0 then [Invalid_prices invalid_prices] else []);
          df = map fillna0 df0;
          df_clean = List.map_filter clean_row df;
          removed_count = initial_count - length df_clean;
          duplicates = duplicated_sum df_clean
      in (df_clean,
          \<lparr>total_records = int initial_count,
           valid_records = int (length df_clean),
           duplicate_records = int duplicates,
           missing_customer_mappings = 0,
           invalid_dates = int (isna_sum (map raw_posted_date df)),
           invalid_prices = int (isna_sum (map raw_net_price df)),
           data_completeness_score =
             (if initial_count > 0 then real (length df_clean) / real initial_count else 0),
           recommendations = issues\<rparr>))"


section \<open>The ownership reconciler\<close>

text \<open>The planning frame: its columns in order, each a label with its cells; labels
  are taken to be distinct.  \<open>lower\<close> is \<^verbatim>\<open>str.lower\<close> on ASCII letters, which is
  all that the four searched words can match.\<close>

type_synonym planning_frame = "(string \<times> string option list) list"

definition lower_char :: "char \<Rightarrow> char" where
  "lower_char c =
     (let n = (of_char c :: nat) in if 65 \<le> n \<and> n \<le> 90 then char_of (n + 32) else c)"

definition lower :: "string \<Rightarrow> string" where
  "lower s = map lower_char s"

fun startswith :: "string \<Rightarrow> string \<Rightarrow> bool" where
  "startswith s [] = True"
| "startswith [] (p # ps) = False"
| "startswith (c # cs) (p # ps) = (c = p \<and> startswith cs ps)"

fun contains :: "string \<Rightarrow> string \<Rightarrow> bool" where
  "contains sub [] = (sub = [])"
| "contains sub (c # cs) = (startswith (c # cs) sub \<or> contains sub cs)"

definition find_columns :: "string list \<Rightarrow> string option \<times> string option" where
  "find_columns cols =
     fold (\<lambda>col (customer_col, rep_col).
             if contains ''customer'' (lower col) then (Some col, rep_col)
             else if contains ''rep'' (lower col) \<or> contains ''salesperson'' (lower col)
                     \<or> contains ''assigned'' (lower col)
             then (customer_col, Some col)
             else (customer_col, rep_col))
          cols (None, None)"

text \<open>\<^verbatim>\<open>dict(zip(keys, values))\<close>: a later pair replaces an earlier one with the
  same key.\<close>

definition dict_zip :: "'k list \<Rightarrow> 'v list \<Rightarrow> ('k \<rightharpoonup> 'v)" where
  "dict_zip ks vs = fold (\<lambda>(k, v) m. m(k \<mapsto> v)) (zip ks vs) Map.empty"

definition customer_mapping :: "planning_frame \<Rightarrow> (string option \<rightharpoonup> string option)" where
  "customer_mapping planning_df =
     (case find_columns (map fst planning_df) of
        (Some customer_col, Some rep_col) \<Rightarrow>
          (case (map_of planning_df customer_col, map_of planning_df rep_col) of
             (Some ks, Some vs) \<Rightarrow> dict_zip ks vs
           | _ \<Rightarrow> Map.empty)
      | _ \<Rightarrow> Map.empty)"

text \<open>\<^verbatim>\<open>map(customer_mapping).fillna(Salesperson)\<close>: a customer that is not a key,
  or whose mapped cell is null, keeps the row's own salesperson.\<close>

definition apply_customer_mappings :: "sales_row list \<Rightarrow> planning_frame \<Rightarrow> mapped_row list" where
  "apply_customer_mappings sales_df planning_df =
     (let cm = customer_mapping planning_df
      in map (\<lambda>r. sales_row.extend
                     (r\<lparr>Salesperson :=
                          (case cm (Some (Customer r)) of
                             Some (Some rep) \<Rightarrow> Some rep
                           | _ \<Rightarrow> Salesperson r)\<rparr>)
                     (mapped_row.fields (Salesperson r)))
             sales_df)"


section \<open>process\_files\<close>

record run_summary =
  total_dormant_customers :: nat
  summary_total_value_at_risk :: real
  summary_average_churn_risk :: real
  data_quality_score :: real

text \<open>The clock is an input of the run: \<open>now\<close> is what \<^verbatim>\<open>datetime.now()\<close> returns
  when the result is built.  The two frames are what the loaders return.\<close>

record processing_result =
  summary :: run_summary
  salesperson_summaries :: "salesperson_summary list"
  dormant_customers :: "dormant_customer list"
  insights :: "(string \<times> message) list"
  quality_report :: data_quality_report
  processing_timestamp :: int
  total_customers_analyzed :: nat
  data_accuracy_score :: real

text \<open>The end of \<^verbatim>\<open>process_files\<close> (lines 193 to 214): from the dormant
  customers, the updated quality report and the number of distinct customers to the
  result.\<close>

definition assemble_result ::
  "analytics_config \<Rightarrow> int \<Rightarrow> data_quality_report \<Rightarrow> dormant_customer list \<Rightarrow> nat
   \<Rightarrow> processing_result" where
  "assemble_result config now quality_report1 dcs customers_analyzed =
     (let rep_summaries = generate_salesperson_summaries config dcs;
          run_insights = generate_insights dcs rep_summaries;
          accuracy_score = calculate_accuracy_score quality_report1
      in \<lparr>summary =
            \<lparr>total_dormant_customers = length dcs,
             summary_total_value_at_risk = sum_list (map total_6_month_value dcs),
             summary_average_churn_risk =
               (if dcs \<noteq> [] then mean (map churn_risk_score dcs) else 0),
             data_quality_score = accuracy_score\<rparr>,
          salesperson_summaries = rep_summaries,
          dormant_customers = dcs,
          insights = run_insights,
          quality_report = quality_report1,
          processing_timestamp = now,
          total_customers_analyzed = customers_analyzed,
          data_accuracy_score = accuracy_score\<rparr>)"

definition process_files ::
  "analytics_config \<Rightarrow> int \<Rightarrow> raw_row list \<Rightarrow> planning_frame \<Rightarrow> error + processing_result" where
  "process_files config now sales_df planning_df =
     (let (sales_df_clean, quality_report0) = validate_sales_data sales_df;
          sales_df_mapped = apply_customer_mappings sales_df_clean planning_df;
          unmapped_customers = isna_sum (map Salesperson sales_df_mapped);
          quality_report1 =
            quality_report0\<lparr>missing_customer_mappings := int unmapped_customers\<rparr>
      in (case identify_dormant_customers config sales_df_mapped of
            Inl e \<Rightarrow> Inl e
          | Inr dcs \<Rightarrow>
              Inr (assemble_result config now quality_report1 dcs
                     (length (remdups (map Customer sales_df_mapped))))))"


section \<open>Test fixtures\<close>

text \<open>The configuration of the repository's tests: as-of date 2025-06-01 and the
  defaults of \<^verbatim>\<open>AnalyticsConfig\<close>.\<close>

definition test_config :: analytics_config where
  "test_config =
     \<lparr>today_date = ymd2ord 2025 6 1, dormant_days_threshold = 45,
      analysis_period_months = 6, high_value_threshold = 1000,
      quick_win_threshold = 500, min_orders_for_pattern = 3\<rparr>"

definition sale :: "date \<Rightarrow> string \<Rightarrow> string \<Rightarrow> real \<Rightarrow> sales_row" where
  "sale d c rep p =
     \<lparr>Invoice_date = Some d, Posted_date = d, Customer = c, Salesperson = Some rep,
      Item = Some ''Wine 1'', Qty = 6, Net_price = p\<rparr>"

definition raw_sale :: "date option \<Rightarrow> string \<Rightarrow> string \<Rightarrow> real option \<Rightarrow> raw_row" where
  "raw_sale d c rep p =
     \<lparr>raw_invoice_date = d, raw_posted_date = d, raw_customer = Some c,
      raw_salesperson = Some rep, raw_item = Some ''Wine 1'', raw_qty = 6,
      raw_net_price = p\<rparr>"

text \<open>The scenario: customer A with three orders, the last on 2025-03-15; customer B,
  whose last order is on the cutoff day 2025-04-17; customer C, whose only order is
  before the analysis start.\<close>

definition scenario_sales :: "sales_row list" where
  "scenario_sales =
     [sale (ymd2ord 2025 1 15) ''A'' ''Old Rep'' 150,
      sale (ymd2ord 2025 2 15) ''A'' ''Old Rep'' 300,
      sale (ymd2ord 2025 3 15) ''A'' ''Old Rep'' 150,
      sale (ymd2ord 2025 4 17) ''B'' ''Rep B'' 100,
      sale (ymd2ord 2024 11 1) ''C'' ''Rep C'' 100]"


section \<open>The specification's reading of the churn-risk score\<close>

text \<open>The four sub-scores and their blend as the specification words them.  The trend
  is the fitted one whenever the transactions span at least two distinct months and the
  neutral 0.5 with fewer; where the specification's quotient \<open>slope/mean\<close> has a zero
  mean, the value is the one of \<open>normalised_slope\<close>.\<close>

definition spec_recency :: "analytics_config \<Rightarrow> 'a sales_row_scheme list \<Rightarrow> real" where
  "spec_recency config txns =
     min (real_of_int (today_date config - Max (set (map Posted_date txns))) / 90) 1"

definition spec_frequency :: "analytics_config \<Rightarrow> 'a sales_row_scheme list \<Rightarrow> real" where
  "spec_frequency config txns =
     max (1 - real (length txns) / real_of_int (analysis_period_months config * 30)) 0"

definition spec_value :: "'a sales_row_scheme list \<Rightarrow> real" where
  "spec_value txns =
     max (1 - (sum_list (map Net_price txns) / real (length txns)) / 1000) 0"

definition distinct_months :: "'a sales_row_scheme list \<Rightarrow> nat" where
  "distinct_months txns = length (remdups (map (\<lambda>r. to_period_M (Posted_date r)) txns))"

definition spec_trend :: "'a sales_row_scheme list \<Rightarrow> pyfloat" where
  "spec_trend txns =
     (if distinct_months txns \<ge> 2 then normalised_slope (monthly_spending txns)
      else Some 0.5)"

definition spec_blend :: "analytics_config \<Rightarrow> 'a sales_row_scheme list \<Rightarrow> real \<Rightarrow> real" where
  "spec_blend config txns trend =
     min (max (0.4 * spec_recency config txns + 0.3 * spec_frequency config txns
               + 0.2 * spec_value txns + 0.1 * (1 - trend)) 0) 1"

definition spec_churn_risk :: "analytics_config \<Rightarrow> 'a sales_row_scheme list \<Rightarrow> pyfloat" where
  "spec_churn_risk config txns = map_option (spec_blend config txns) (spec_trend txns)"


section \<open>More fixtures\<close>

text \<open>Two transactions in two distinct months, the same with a third transaction, the
  raw batch of the scenario, and the planning table of the repository's tests.\<close>

definition two_month_sales :: "sales_row list" where
  "two_month_sales =
     [sale (ymd2ord 2025 1 15) ''A'' ''Rep A'' 100,
      sale (ymd2ord 2025 2 15) ''A'' ''Rep A'' 300]"

definition three_txn_sales :: "sales_row list" where
  "three_txn_sales = two_month_sales @ [sale (ymd2ord 2025 2 20) ''A'' ''Rep A'' 200]"

definition scenario_raw :: "raw_row list" where
  "scenario_raw =
     [raw_sale (Some (ymd2ord 2025 1 15)) ''A'' ''Old Rep'' (Some 150),
      raw_sale (Some (ymd2ord 2025 2 15)) ''A'' ''Old Rep'' (Some 300),
      raw_sale (Some (ymd2ord 2025 3 15)) ''A'' ''Old Rep'' (Some 150),
      raw_sale (Some (ymd2ord 2025 4 17)) ''B'' ''Rep B'' (Some 100),
      raw_sale (Some (ymd2ord 2024 11 1)) ''C'' ''Rep C'' (Some 100)]"

definition scenario_planning :: planning_frame where
  "scenario_planning =
     [(''Customer'', [Some ''A'', Some ''B'']),
      (''Assigned Rep'', [Some ''Mike Allen'', Some ''Angela Fultz''])]"


definition dormant :: "string \<Rightarrow> string \<Rightarrow> real \<Rightarrow> real \<Rightarrow> dormant_customer" where
  "dormant c rep v risk =
     \<lparr>customer = c, salesperson = rep, last_order_date = ymd2ord 2025 3 15,
      days_since_order = 78, total_6_month_value = v, order_count_6_months = 3,
      average_order_value = v / 3, churn_risk_score = risk,
      customer_lifetime_value = 2 * v, preferred_products = [], seasonal_pattern = None\<rparr>"

definition three_dormant :: "dormant_customer list" where
  "three_dormant =
     [dormant ''A'' ''Mike Allen'' 600 (1 / 2),
      dormant ''B'' ''Angela Fultz'' 1500 (3 / 4),
      dormant ''C'' ''Mike Allen'' 300 1]"


text \<open>A planning table whose representative cell for customer A is empty, one sale of
  A, and six sales of one customer, three of them in January.\<close>

definition null_rep_planning :: planning_frame where
  "null_rep_planning = [(''Customer'', [Some ''A'']), (''Assigned Rep'', [None])]"

definition one_sale :: "sales_row list" where
  "one_sale = [sale (ymd2ord 2025 3 15) ''A'' ''Old Rep'' 150]"

definition six_sales :: "sales_row list" where
  "six_sales =
     [sale (ymd2ord 2025 1 5) ''S'' ''Rep S'' 100,
      sale (ymd2ord 2025 1 12) ''S'' ''Rep S'' 100,
      sale (ymd2ord 2025 1 19) ''S'' ''Rep S'' 100,
      sale (ymd2ord 2025 2 2) ''S'' ''Rep S'' 100,
      sale (ymd2ord 2025 2 9) ''S'' ''Rep S'' 100,
      sale (ymd2ord 2025 3 2) ''S'' ''Rep S'' 100]"




definition customer_A_record :: dormant_customer where
  "customer_A_record =
     \<lparr>customer = ''A'', salesperson = ''Mike Allen'', last_order_date = ymd2ord 2025 3 15,
      days_since_order = 78, total_6_month_value = 600, order_count_6_months = 3,
      average_order_value = 200, churn_risk_score = 511 / 600,
      customer_lifetime_value = 1200, preferred_products = [''Wine 1''],
      seasonal_pattern = None\<rparr>"

definition six_sales_record :: dormant_customer where
  "six_sales_record =
     \<lparr>customer = ''S'', salesperson = ''Rep S'', last_order_date = ymd2ord 2025 3 2,
      days_since_order = 91, total_6_month_value = 600, order_count_6_months = 6,
      average_order_value = 100, churn_risk_score = 97 / 100,
      customer_lifetime_value = 1200, preferred_products = [''Wine 1''],
      seasonal_pattern = Some ''Winter buyer''\<rparr>"



section \<open>Auxiliary predicates\<close>

text \<open>An accumulator entry all of whose collected risk scores lie in the unit interval.\<close>

definition scores_in_range :: "rep_entry \<Rightarrow> bool" where
  "scores_in_range v = (\<forall>x\<in>set (acc_risk_scores v). 0 \<le> x \<and> x \<le> 1)"


section \<open>The date comparison of the selector\<close>

lemma period_sales_raises: "period_sales config sales_df = Inl TypeError"
  by (simp add: period_sales_def compare_datetime64_def)

lemma identify_raises: "identify_dormant_customers config sales_df = Inl TypeError"
  by (simp add: identify_dormant_customers_def period_sales_raises)

lemma process_files_raises: "process_files config now sales_df planning_df = Inl TypeError"
  by (simp add: process_files_def Let_def identify_raises split: prod.splits)

text \<open>
  Claim C1.  A customer is to be classified dormant exactly when the latest posted date
  of its windowed records lies between the analysis start (inclusive) and the cutoff
  (exclusive).  Under the configuration of the repository's tests the analysis starts on
  2024-12-03 and the cutoff is 2025-04-17; customer A of the scenario last ordered on
  2025-03-15, inside that interval, and the selector does not classify A: restricting
  the frame to the window compares the datetime64 column with a
  \<^verbatim>\<open>datetime.date\<close>, which raises \<^verbatim>\<open>TypeError\<close>.
\<close>

theorem selector_raises_on_scenario:
  "identify_dormant_customers test_config scenario_sales = Inl TypeError
   \<and> map_of (customer_last_orders scenario_sales) ''A'' = Some (ymd2ord 2025 3 15)
   \<and> analysis_start test_config = ymd2ord 2024 12 3
   \<and> cutoff_date test_config = ymd2ord 2025 4 17
   \<and> ymd2ord 2024 12 3 \<le> ymd2ord 2025 3 15
   \<and> ymd2ord 2025 3 15 < ymd2ord 2025 4 17"
  by code_simp


section \<open>Empty input\<close>

lemma accuracy_no_records: "total_records q = 0 \<Longrightarrow> calculate_accuracy_score q = 0"
  by (simp add: calculate_accuracy_score_def)

lemma insights_error_marker:
  "dcs = [] \<or> summaries = [] \<Longrightarrow>
   generate_insights dcs summaries =
     [(''error'', Plain ''No dormant customers found for analysis'')]"
  by (auto simp: generate_insights_def split: list.splits)

lemma validate_sales_data_Nil:
  "validate_sales_data [] =
     ([], \<lparr>total_records = 0, valid_records = 0, duplicate_records = 0,
            missing_customer_mappings = 0, invalid_dates = 0, invalid_prices = 0,
            data_completeness_score = 0, recommendations = []\<rparr>)"
  by (simp add: validate_sales_data_def isna_sum_def)

text \<open>
  Claim C8.  On empty input the run is to degrade gracefully rather than fail.  The
  two components do: the accuracy score of the empty batch's report is 0 and the insight
  synthesizer answers empty lists with the single error marker.  The run on the empty
  batch fails all the same: the selector compares the (empty) datetime64 column with a
  \<^verbatim>\<open>datetime.date\<close> and raises \<^verbatim>\<open>TypeError\<close>.
\<close>

theorem empty_batch_run_raises:
  "process_files test_config 0 [] scenario_planning = Inl TypeError
   \<and> total_records (snd (validate_sales_data [])) = 0
   \<and> calculate_accuracy_score (snd (validate_sales_data [])) = 0
   \<and> generate_insights [] []
       = [(''error'', Plain ''No dormant customers found for analysis'')]"
  by code_simp


section \<open>The count of invalid prices\<close>

text \<open>
  Claim C6.  The report's \<open>invalid_prices\<close> should be the number of price cells that
  failed numeric coercion.  The validator counts them for its recommendation text, then
  replaces them by zero, and fills the report's field with a second count taken after
  the replacement: on a batch of one record whose price did not convert, the record is
  kept with price 0, one price failed, and the report says 0.
\<close>

theorem invalid_prices_reported_zero:
  "invalid_prices (snd (validate_sales_data [raw_sale (Some 739403) ''A'' ''Rep'' None])) = 0
   \<and> isna_sum (map raw_net_price [raw_sale (Some 739403) ''A'' ''Rep'' None]) = 1
   \<and> map Net_price (fst (validate_sales_data [raw_sale (Some 739403) ''A'' ''Rep'' None])) = [0]
   \<and> recommendations (snd (validate_sales_data [raw_sale (Some 739403) ''A'' ''Rep'' None]))
       = [Invalid_prices 1]"
  by code_simp


section \<open>The record of one dormant customer\<close>

lemma analyse_customer_fields:
  assumes "analyse_customer config c first others = Inr d"
  shows "customer d = c"
    and "last_order_date d = Max (set (map Posted_date (first # others)))"
    and "days_since_order d = today_date config - last_order_date d"
    and "order_count_6_months d = length (first # others)"
    and "total_6_month_value d = sum_list (map Net_price (first # others))"
    and "seasonal_pattern d = identify_seasonal_patterns (first # others)"
    and "Salesperson first = Some (salesperson d)"
    and "0 \<le> churn_risk_score d \<and> churn_risk_score d \<le> 1"
    and "calculate_churn_risk_score (first # others) config = Inr (Some (churn_risk_score d))"
  using assms unfolding analyse_customer_def DormantCustomer_def Let_def
  by (auto split: sum.splits option.splits if_splits)



section \<open>The representative aggregator conserves value\<close>




lemma total_update_entry:
  "rep \<in> set (map fst rd) \<Longrightarrow> (\<And>v. acc_total_value (f v) = acc_total_value v + x) \<Longrightarrow>
   sum_list (map (\<lambda>e. acc_total_value (snd e)) (update_entry rep f rd))
     = sum_list (map (\<lambda>e. acc_total_value (snd e)) rd) + x"
  by (induction rd) force+

lemma total_add_customer:
  "sum_list (map (\<lambda>e. acc_total_value (snd e)) (add_customer config c rd))
     = sum_list (map (\<lambda>e. acc_total_value (snd e)) rd) + total_6_month_value c"
proof -
  let ?rd = "if salesperson c \<notin> set (map fst rd) then rd @ [(salesperson c, new_entry)] else rd"
  have k: "salesperson c \<in> set (map fst ?rd)" by auto
  have t: "sum_list (map (\<lambda>e. acc_total_value (snd e)) ?rd)
           = sum_list (map (\<lambda>e. acc_total_value (snd e)) rd)"
    by (simp add: new_entry_def)
  show ?thesis
    unfolding add_customer_def Let_def
    by (subst total_update_entry[OF k, where x = "total_6_month_value c"]) (simp_all add: new_entry_def)
qed

lemma total_fold_add_customer:
  "sum_list (map (\<lambda>e. acc_total_value (snd e)) (fold (add_customer config) cs rd))
     = sum_list (map (\<lambda>e. acc_total_value (snd e)) rd) + sum_list (map total_6_month_value cs)"
  by (induction cs arbitrary: rd) (simp_all add: total_add_customer)

lemma sum_list_insort_key:
  fixes g :: "'a \<Rightarrow> real"
  shows "sum_list (map g (insort_key k x xs)) = g x + sum_list (map g xs)"
  by (induction xs) auto

lemma sum_list_sort_key:
  fixes g :: "'a \<Rightarrow> real"
  shows "sum_list (map g (sort_key k xs)) = sum_list (map g xs)"
  by (induction xs) (simp_all add: sum_list_insort_key)

lemma total_summary_of: "total_value_at_risk (summary_of e) = acc_total_value (snd e)"
  by (cases e) (simp add: summary_of_def)

lemma key_summary_of: "ss_salesperson (summary_of e) = fst e"
  by (cases e) (simp add: summary_of_def)

text \<open>
  Claim C2.  The totals at risk of the representative summaries add up to the window
  values of the dormant customers: every customer's value is counted in the total of
  exactly one representative.
\<close>

theorem summaries_conserve_value:
  "sum_list (map total_value_at_risk (generate_salesperson_summaries config dcs))
   = sum_list (map total_6_month_value dcs)"
  by (simp add: generate_salesperson_summaries_def sum_list_sort_key comp_def total_summary_of
      total_fold_add_customer)

theorem summaries_conserve_value_witness:
  "sum_list (map total_value_at_risk (generate_salesperson_summaries test_config three_dormant)) = 2400
   \<and> sum_list (map total_6_month_value three_dormant) = 2400"
proof -
  have "sum_list (map total_6_month_value three_dormant) = 2400"
    by (simp add: three_dormant_def dormant_def)
  with summaries_conserve_value[of test_config three_dormant] show ?thesis by simp
qed

lemma summary_keys:
  "map ss_salesperson (map summary_of rd) = map fst rd"
  by (simp add: comp_def key_summary_of)



section \<open>Invariants of the dormant-customer records\<close>




section \<open>The churn-risk score\<close>

lemma normalised_slope_range: "normalised_slope y = Some t \<Longrightarrow> 0 \<le> t \<and> t \<le> 1"
  by (auto simp: normalised_slope_def Let_def split: if_splits)

lemma length_monthly_spending: "length (monthly_spending txns) = distinct_months txns"
  by (simp add: monthly_spending_def distinct_months_def)

lemma value_trend_spec:
  "calculate_value_trend txns = (if length txns < 3 then Some 0.5 else spec_trend txns)"
  by (auto simp: calculate_value_trend_def spec_trend_def Let_def length_monthly_spending)

lemma value_trend_range: "calculate_value_trend txns = Some t \<Longrightarrow> 0 \<le> t \<and> t \<le> 1"
  by (auto simp: calculate_value_trend_def Let_def split: if_splits dest: normalised_slope_range)

lemma churn_blend:
  assumes "txns \<noteq> []" "analysis_period_months config \<noteq> 0"
  shows "calculate_churn_risk_score txns config
         = Inr (map_option (spec_blend config txns) (calculate_value_trend txns))"
proof (cases "calculate_value_trend txns")
  case None
  with assms show ?thesis by (simp add: calculate_churn_risk_score_def Let_def)
next
  case (Some t)
  from value_trend_range[OF Some] have "max (1 - t) 0 = 1 - t" by simp
  with assms Some show ?thesis
    by (simp add: calculate_churn_risk_score_def Let_def spec_blend_def spec_recency_def
        spec_frequency_def spec_value_def mult.commute)
qed

lemma spec_blend_range: "0 \<le> spec_blend config txns t \<and> spec_blend config txns t \<le> 1"
  unfolding spec_blend_def by (rule conjI) (rule min.boundedI, simp_all)

lemma churn_score_range:
  assumes "calculate_churn_risk_score txns config = Inr (Some s)"
  shows "0 \<le> s \<and> s \<le> 1"
proof (cases "txns = []")
  case True
  with assms show ?thesis by (simp add: calculate_churn_risk_score_def)
next
  case False
  show ?thesis
  proof (cases "analysis_period_months config = 0")
    case True
    with False assms show ?thesis by (simp add: calculate_churn_risk_score_def Let_def)
  next
    case months: False
    from churn_blend[OF False months] assms
    obtain t where "s = spec_blend config txns t"
      by (cases "calculate_value_trend txns") auto
    then show ?thesis by (simp add: spec_blend_range)
  qed
qed


section \<open>Scores stay in the unit interval\<close>

lemma sum_list_le_length:
  fixes xs :: "real list"
  shows "\<forall>x\<in>set xs. x \<le> 1 \<Longrightarrow> sum_list xs \<le> real (length xs)"
  by (induction xs) auto

lemma mean_range:
  assumes "xs \<noteq> []" "\<forall>x\<in>set xs. 0 \<le> x \<and> x \<le> 1"
  shows "0 \<le> mean xs \<and> mean xs \<le> 1"
proof -
  have n: "0 < real (length xs)" using assms(1) by simp
  have lo: "0 \<le> sum_list xs" using assms(2) by (simp add: sum_list_nonneg)
  have hi: "sum_list xs \<le> real (length xs)" using assms(2) by (simp add: sum_list_le_length)
  from n lo hi show ?thesis by (simp add: mean_def)
qed

lemma update_entry_preserves:
  "\<forall>e\<in>set rd. P (snd e) \<Longrightarrow> (\<And>v. P v \<Longrightarrow> P (f v)) \<Longrightarrow>
   \<forall>e\<in>set (update_entry rep f rd). P (snd e)"
  by (induction rd) (fastforce split: if_splits)+

lemma add_customer_scores:
  assumes "0 \<le> churn_risk_score c \<and> churn_risk_score c \<le> 1"
    and "\<forall>e\<in>set rd. scores_in_range (snd e)"
  shows "\<forall>e\<in>set (add_customer config c rd). scores_in_range (snd e)"
  unfolding add_customer_def Let_def
  by (rule update_entry_preserves)
     (use assms in \<open>auto simp: scores_in_range_def new_entry_def\<close>)

lemma fold_add_customer_scores:
  "\<forall>c\<in>set cs. 0 \<le> churn_risk_score c \<and> churn_risk_score c \<le> 1 \<Longrightarrow>
   \<forall>e\<in>set rd. scores_in_range (snd e) \<Longrightarrow>
   \<forall>e\<in>set (fold (add_customer config) cs rd). scores_in_range (snd e)"
proof (induction cs arbitrary: rd)
  case Nil
  then show ?case by simp
next
  case (Cons c cs)
  have "\<forall>e\<in>set (add_customer config c rd). scores_in_range (snd e)"
    using Cons.prems by (intro add_customer_scores) simp_all
  with Cons show ?case by simp
qed

lemma summary_average_range:
  assumes "scores_in_range (snd e)"
  shows "0 \<le> average_churn_risk (summary_of e) \<and> average_churn_risk (summary_of e) \<le> 1"
proof (cases e)
  case (Pair rep v)
  show ?thesis
  proof (cases "acc_risk_scores v = []")
    case True
    with Pair show ?thesis by (simp add: summary_of_def)
  next
    case False
    from assms Pair have "\<forall>x\<in>set (acc_risk_scores v). 0 \<le> x \<and> x \<le> 1"
      by (simp add: scores_in_range_def)
    from mean_range[OF False this] Pair False show ?thesis by (simp add: summary_of_def)
  qed
qed

lemma summaries_average_range:
  assumes "\<forall>c\<in>set dcs. 0 \<le> churn_risk_score c \<and> churn_risk_score c \<le> 1"
    and "sm \<in> set (generate_salesperson_summaries config dcs)"
  shows "0 \<le> average_churn_risk sm \<and> average_churn_risk sm \<le> 1"
proof -
  from assms(2) obtain e where e: "e \<in> set (fold (add_customer config) dcs [])"
    and sm: "sm = summary_of e"
    by (auto simp: generate_salesperson_summaries_def)
  from fold_add_customer_scores[OF assms(1), of "[]" config] e
  have "scores_in_range (snd e)" by simp
  from summary_average_range[OF this] sm show ?thesis by simp
qed

section \<open>The value trend\<close>

text \<open>
  Claim C5, as stated, fails: two transactions in two distinct months have a fitted
  trend of 1 by the specification's rule, and the code answers the neutral 0.5.
\<close>

theorem value_trend_ignores_two_months_counterexample:
  "2 \<le> distinct_months two_month_sales
   \<and> spec_trend two_month_sales = Some 1
   \<and> calculate_value_trend two_month_sales = Some (1 / 2)"
  by code_simp

text \<open>
  Claim C5, amended.  The trend is the normalised slope of the linear fit of the monthly
  spend exactly when the customer has at least 3 windowed transactions that span at
  least 2 distinct calendar months; otherwise it is the neutral 0.5.
\<close>

theorem value_trend_fitted_from_three_transactions:
  "calculate_value_trend txns =
     (if 3 \<le> length txns \<and> 2 \<le> distinct_months txns
      then normalised_slope (monthly_spending txns)
      else Some 0.5)"
  by (auto simp: value_trend_spec spec_trend_def)

theorem value_trend_fitted_from_three_transactions_witness:
  "3 \<le> length three_txn_sales \<and> 2 \<le> distinct_months three_txn_sales
   \<and> calculate_value_trend three_txn_sales = Some 1
   \<and> normalised_slope (monthly_spending three_txn_sales) = Some 1"
proof -
  have l: "3 \<le> length three_txn_sales" by code_simp
  have m: "2 \<le> distinct_months three_txn_sales" by code_simp
  have n: "normalised_slope (monthly_spending three_txn_sales) = Some 1" by code_simp
  from value_trend_fitted_from_three_transactions[of three_txn_sales] l m n
  show ?thesis by simp
qed


section \<open>The blended churn-risk score\<close>

text \<open>
  Claim C4, as stated, fails: with every sub-score as the specification defines it, two
  transactions in two distinct months score 257/300, and the code returns 68/75, since
  its trend is the neutral one below three transactions.
\<close>

theorem churn_risk_differs_from_spec_counterexample:
  "two_month_sales \<noteq> []
   \<and> calculate_churn_risk_score two_month_sales test_config = Inr (Some (68 / 75))
   \<and> spec_churn_risk test_config two_month_sales = Some (257 / 300)"
  by code_simp

text \<open>
  Claim C4, amended.  For a non-empty windowed transaction set and a configuration
  whose analysis period is not 0 months, the churn-risk score is the clamp to the unit
  interval of 0.4 recency + 0.3 frequency + 0.2 value + 0.1 trend, with recency,
  frequency and value as the specification defines them and the trend sub-score the
  neutral 0.5 below three transactions and, from three transactions on, the
  specification's, where that is a number.  Every score of such a blend lies in the unit
  interval, so does the churn-risk score of every record the \<^verbatim>\<open>DormantCustomer\<close>
  constructor accepts, and so does the average churn risk of every summary the
  aggregator builds from such records.
\<close>

theorem churn_risk_is_clamped_blend:
  "(txns \<noteq> [] \<and> analysis_period_months config \<noteq> 0
      \<and> (3 \<le> length txns \<longrightarrow> spec_trend txns = Some t) \<longrightarrow>
      calculate_churn_risk_score txns config
        = Inr (Some (spec_blend config txns (if length txns < 3 then 0.5 else t)))
      \<and> 0 \<le> spec_blend config txns (if length txns < 3 then 0.5 else t)
      \<and> spec_blend config txns (if length txns < 3 then 0.5 else t) \<le> 1)
   \<and> (DormantCustomer c sp lod dso tv oc aov crs clv pp seas = Inr d \<longrightarrow>
        0 \<le> churn_risk_score d \<and> churn_risk_score d \<le> 1)
   \<and> ((\<forall>d\<in>set dcs. 0 \<le> churn_risk_score d \<and> churn_risk_score d \<le> 1)
        \<and> sm \<in> set (generate_salesperson_summaries config dcs) \<longrightarrow>
        0 \<le> average_churn_risk sm \<and> average_churn_risk sm \<le> 1)"
proof (intro conjI impI)
  assume a: "txns \<noteq> [] \<and> analysis_period_months config \<noteq> 0
      \<and> (3 \<le> length txns \<longrightarrow> spec_trend txns = Some t)"
  then have "calculate_value_trend txns = Some (if length txns < 3 then 0.5 else t)"
    by (simp add: value_trend_spec)
  with a show "calculate_churn_risk_score txns config
        = Inr (Some (spec_blend config txns (if length txns < 3 then 0.5 else t)))"
    by (simp add: churn_blend)
next
  show "0 \<le> spec_blend config txns (if length txns < 3 then 0.5 else t)"
    and "spec_blend config txns (if length txns < 3 then 0.5 else t) \<le> 1"
    by (simp_all add: spec_blend_range)
next
  assume "DormantCustomer c sp lod dso tv oc aov crs clv pp seas = Inr d"
  then show "0 \<le> churn_risk_score d" and "churn_risk_score d \<le> 1"
    by (auto simp: DormantCustomer_def split: option.splits if_splits)
next
  assume a: "(\<forall>d\<in>set dcs. 0 \<le> churn_risk_score d \<and> churn_risk_score d \<le> 1)
        \<and> sm \<in> set (generate_salesperson_summaries config dcs)"
  then have r: "\<forall>d\<in>set dcs. 0 \<le> churn_risk_score d \<and> churn_risk_score d \<le> 1"
    and m: "sm \<in> set (generate_salesperson_summaries config dcs)"
    by simp_all
  from summaries_average_range[OF r m]
  show "0 \<le> average_churn_risk sm" and "average_churn_risk sm \<le> 1" by simp_all
qed

theorem churn_risk_is_clamped_blend_witness:
  "three_txn_sales \<noteq> [] \<and> analysis_period_months test_config \<noteq> 0
   \<and> 3 \<le> length three_txn_sales \<and> spec_trend three_txn_sales = Some 1
   \<and> calculate_churn_risk_score three_txn_sales test_config = Inr (Some (171 / 200))
   \<and> spec_blend test_config three_txn_sales 1 = 171 / 200
   \<and> DormantCustomer ''A'' (Some ''Mike Allen'') (ymd2ord 2025 3 15) 78 600 3 200
        (Some (511 / 600)) 1200 [''Wine 1''] None = Inr customer_A_record
   \<and> 0 \<le> churn_risk_score customer_A_record \<and> churn_risk_score customer_A_record \<le> 1
   \<and> churn_risk_score (dormant ''A'' ''Mike Allen'' 600 (1 / 2)) = 1 / 2
   \<and> churn_risk_score (dormant ''B'' ''Angela Fultz'' 1500 (3 / 4)) = 3 / 4
   \<and> churn_risk_score (dormant ''C'' ''Mike Allen'' 300 1) = 1
   \<and> hd (generate_salesperson_summaries test_config three_dormant)
       \<in> set (generate_salesperson_summaries test_config three_dormant)
   \<and> average_churn_risk (hd (generate_salesperson_summaries test_config three_dormant))
       = 3 / 4"
proof -
  have a: "three_txn_sales \<noteq> []" by code_simp
  have b: "analysis_period_months test_config \<noteq> 0" by (simp add: test_config_def)
  have c: "3 \<le> length three_txn_sales" "\<not> length three_txn_sales < 3" by code_simp+
  have t: "spec_trend three_txn_sales = Some 1" by code_simp
  have v: "spec_blend test_config three_txn_sales 1 = 171 / 200" by code_simp
  have k: "DormantCustomer ''A'' (Some ''Mike Allen'') (ymd2ord 2025 3 15) 78 600 3 200
             (Some (511 / 600)) 1200 [''Wine 1''] None = Inr customer_A_record"
    by (simp add: DormantCustomer_def customer_A_record_def)
  have s: "churn_risk_score (dormant ''A'' ''Mike Allen'' 600 (1 / 2)) = 1 / 2"
    "churn_risk_score (dormant ''B'' ''Angela Fultz'' 1500 (3 / 4)) = 3 / 4"
    "churn_risk_score (dormant ''C'' ''Mike Allen'' 300 1) = 1"
    by (simp_all add: dormant_def)
  have r: "\<forall>d\<in>set three_dormant. 0 \<le> churn_risk_score d \<and> churn_risk_score d \<le> 1"
    by (simp add: three_dormant_def dormant_def)
  have g: "generate_salesperson_summaries test_config three_dormant
           = [\<lparr>ss_salesperson = ''Angela Fultz'', dormant_customer_count = 1,
                total_value_at_risk = 1500, high_value_dormant_count = 1,
                quick_win_count = 0, average_churn_risk = 3 / 4\<rparr>,
              \<lparr>ss_salesperson = ''Mike Allen'', dormant_customer_count = 2,
                total_value_at_risk = 900, high_value_dormant_count = 0,
                quick_win_count = 1, average_churn_risk = 3 / 4\<rparr>]"
    by code_simp
  have h: "hd (generate_salesperson_summaries test_config three_dormant)
           \<in> set (generate_salesperson_summaries test_config three_dormant)"
    and av: "average_churn_risk (hd (generate_salesperson_summaries test_config three_dormant))
             = 3 / 4"
    by (simp_all add: g)
  from churn_risk_is_clamped_blend
         [of three_txn_sales test_config 1 "''A''" "Some ''Mike Allen''" "ymd2ord 2025 3 15" 78
             600 3 200 "Some (511 / 600)" 1200 "[''Wine 1'']" None customer_A_record
             three_dormant "hd (generate_salesperson_summaries test_config three_dormant)"]
       a b c t v k s r h av
  show ?thesis by simp
qed


section \<open>Ownership reconciliation\<close>

text \<open>
  Claim C7, as stated, fails: customer A appears in the planning table's mapping, with
  an empty representative cell, and the record of A keeps its original salesperson
  instead of carrying the mapped value.
\<close>

theorem null_mapped_rep_keeps_original_counterexample:
  "customer_mapping null_rep_planning (Some ''A'') = Some None
   \<and> map Salesperson one_sale = [Some ''Old Rep'']
   \<and> map Salesperson (apply_customer_mappings one_sale null_rep_planning) = [Some ''Old Rep'']"
  by code_simp

lemma apply_customer_mappings_nth:
  assumes "i < length sales_df"
  shows "apply_customer_mappings sales_df planning_df ! i =
           sales_row.extend
             ((sales_df ! i)\<lparr>Salesperson :=
                (case customer_mapping planning_df (Some (Customer (sales_df ! i))) of
                   Some (Some rep) \<Rightarrow> Some rep
                 | _ \<Rightarrow> Salesperson (sales_df ! i))\<rparr>)
             (mapped_row.fields (Salesperson (sales_df ! i)))"
  using assms by (simp add: apply_customer_mappings_def Let_def)

text \<open>
  Claim C7, amended.  After reconciliation every record whose customer the planning
  table maps to a representative that is not null carries that representative as its
  salesperson, whatever its original value; every record whose customer is absent from
  the mapping, or mapped to a null cell, keeps its original salesperson; and each
  record retains its pre-resolution salesperson beside the resolved one.
\<close>

theorem planning_value_wins_when_present:
  assumes "i < length sales_df"
  shows "length (apply_customer_mappings sales_df planning_df) = length sales_df
     \<and> Customer (apply_customer_mappings sales_df planning_df ! i) = Customer (sales_df ! i)
     \<and> Salesperson_Original (apply_customer_mappings sales_df planning_df ! i)
         = Salesperson (sales_df ! i)
     \<and> (customer_mapping planning_df (Some (Customer (sales_df ! i))) = Some (Some rep) \<longrightarrow>
          Salesperson (apply_customer_mappings sales_df planning_df ! i) = Some rep)
     \<and> (customer_mapping planning_df (Some (Customer (sales_df ! i))) = None
          \<or> customer_mapping planning_df (Some (Customer (sales_df ! i))) = Some None \<longrightarrow>
          Salesperson (apply_customer_mappings sales_df planning_df ! i)
            = Salesperson (sales_df ! i))"
proof -
  have l: "length (apply_customer_mappings sales_df planning_df) = length sales_df"
    by (simp add: apply_customer_mappings_def Let_def)
  show ?thesis
    unfolding apply_customer_mappings_nth[OF assms]
    by (auto simp: l sales_row.extend_def mapped_row.fields_def split: option.splits)
qed

theorem planning_value_wins_when_present_witness:
  "(0::nat) < length one_sale
   \<and> customer_mapping scenario_planning (Some (Customer (one_sale ! 0))) = Some (Some ''Mike Allen'')
   \<and> Salesperson (one_sale ! 0) = Some ''Old Rep''
   \<and> Salesperson (apply_customer_mappings one_sale scenario_planning ! 0) = Some ''Mike Allen''
   \<and> Salesperson_Original (apply_customer_mappings one_sale scenario_planning ! 0)
       = Some ''Old Rep''"
proof -
  have a: "(0::nat) < length one_sale" by code_simp
  have b: "customer_mapping scenario_planning (Some (Customer (one_sale ! 0)))
           = Some (Some ''Mike Allen'')" by code_simp
  have c: "Salesperson (one_sale ! 0) = Some ''Old Rep''" by code_simp
  from planning_value_wins_when_present[OF a, of scenario_planning "''Mike Allen''"] a b c
  show ?thesis by simp
qed


section \<open>Seasonal patterns and the unused configuration field\<close>

lemma sort_key_Nil_iff: "sort_key f xs = [] \<longleftrightarrow> xs = []"
  by (metis length_0_conv length_sort)

lemma monthly_orders_Nil: "monthly_orders txns = [] \<longleftrightarrow> txns = []"
  by (simp add: monthly_orders_def sort_key_Nil_iff)

lemma seasonal_iff: "identify_seasonal_patterns txns \<noteq> None \<longleftrightarrow> 6 \<le> length txns"
proof (cases "length txns < 6")
  case True
  then show ?thesis by (simp add: identify_seasonal_patterns_def)
next
  case False
  then have "txns \<noteq> []" by auto
  then have "monthly_orders txns \<noteq> []" by (simp add: monthly_orders_Nil)
  with False show ?thesis
    by (auto simp: identify_seasonal_patterns_def split: list.splits)
qed

lemma churn_ignores_min_orders:
  "calculate_churn_risk_score txns (config\<lparr>min_orders_for_pattern := n\<rparr>)
   = calculate_churn_risk_score txns config"
  by (simp add: calculate_churn_risk_score_def)

lemma analyse_customer_ignores_min_orders:
  "analyse_customer (config\<lparr>min_orders_for_pattern := n\<rparr>) c first others
   = analyse_customer config c first others"
  by (simp add: analyse_customer_def Let_def churn_ignores_min_orders split: sum.splits)

lemma analyse_customers_ignores_min_orders:
  "analyse_customers (config\<lparr>min_orders_for_pattern := n\<rparr>) ps cs
   = analyse_customers config ps cs"
  by (induction cs) (simp_all add: analyse_customer_ignores_min_orders split: list.splits sum.splits)

lemma identify_ignores_min_orders:
  "identify_dormant_customers (config\<lparr>min_orders_for_pattern := n\<rparr>) sales_df
   = identify_dormant_customers config sales_df"
  by (simp add: identify_dormant_customers_def analyse_customers_ignores_min_orders
      period_sales_def dormant_customer_names_def analysis_start_def cutoff_date_def
      Let_def split: sum.splits)

lemma add_customer_ignores_min_orders:
  "add_customer (config\<lparr>min_orders_for_pattern := n\<rparr>) = add_customer config"
  by (intro ext) (simp add: add_customer_def Let_def cong: if_cong)

lemma summaries_ignore_min_orders:
  "generate_salesperson_summaries (config\<lparr>min_orders_for_pattern := n\<rparr>) dcs
   = generate_salesperson_summaries config dcs"
  by (simp add: generate_salesperson_summaries_def add_customer_ignores_min_orders)

lemma assemble_result_ignores_min_orders:
  "assemble_result (config\<lparr>min_orders_for_pattern := n\<rparr>) now q dcs k
   = assemble_result config now q dcs k"
  by (simp add: assemble_result_def summaries_ignore_min_orders)

lemma process_files_ignores_min_orders:
  "process_files (config\<lparr>min_orders_for_pattern := n\<rparr>) now sales_df planning_df
   = process_files config now sales_df planning_df"
  by (simp add: process_files_def Let_def identify_ignores_min_orders
      assemble_result_ignores_min_orders split: prod.splits sum.splits)

text \<open>
  Claim C10.  The seasonal pattern of a transaction set is not \<^verbatim>\<open>None\<close> exactly
  when the set has at least 6 transactions, and so is the \<open>seasonal_pattern\<close> field of
  the record built from a customer's windowed transactions.  The configuration field
  \<open>min_orders_for_pattern\<close> is read nowhere: the scores, the records, the summaries, the
  assembled result and the outcome of the run are the same for every value of it.
\<close>

theorem seasonal_pattern_needs_six_transactions:
  "(identify_seasonal_patterns txns \<noteq> None \<longleftrightarrow> 6 \<le> length txns)
   \<and> (analyse_customer config c first others = Inr d \<longrightarrow>
        (seasonal_pattern d \<noteq> None \<longleftrightarrow> 6 \<le> length (first # others)))
   \<and> calculate_churn_risk_score txns (config\<lparr>min_orders_for_pattern := n\<rparr>)
       = calculate_churn_risk_score txns config
   \<and> analyse_customers (config\<lparr>min_orders_for_pattern := n\<rparr>) ps cs
       = analyse_customers config ps cs
   \<and> generate_salesperson_summaries (config\<lparr>min_orders_for_pattern := n\<rparr>) dcs
       = generate_salesperson_summaries config dcs
   \<and> assemble_result (config\<lparr>min_orders_for_pattern := n\<rparr>) now q dcs k
       = assemble_result config now q dcs k
   \<and> process_files (config\<lparr>min_orders_for_pattern := n\<rparr>) now sales_df planning_df
       = process_files config now sales_df planning_df"
proof (intro conjI impI)
  show "identify_seasonal_patterns txns \<noteq> None \<longleftrightarrow> 6 \<le> length txns"
    by (rule seasonal_iff)
next
  assume a: "analyse_customer config c first others = Inr d"
  from analyse_customer_fields(6)[OF a] seasonal_iff[of "first # others"]
  show "seasonal_pattern d \<noteq> None \<longleftrightarrow> 6 \<le> length (first # others)" by simp
qed (simp_all only: churn_ignores_min_orders analyse_customers_ignores_min_orders
       summaries_ignore_min_orders assemble_result_ignores_min_orders
       process_files_ignores_min_orders)

theorem seasonal_pattern_needs_six_transactions_witness:
  "analyse_customer test_config ''S'' (hd six_sales) (tl six_sales) = Inr six_sales_record
   \<and> seasonal_pattern six_sales_record = Some ''Winter buyer''
   \<and> length (hd six_sales # tl six_sales) = 6
   \<and> identify_seasonal_patterns three_txn_sales = None
   \<and> length three_txn_sales = 3"
proof -
  have a: "analyse_customer test_config ''S'' (hd six_sales) (tl six_sales)
           = Inr six_sales_record"
    by code_simp
  have s: "seasonal_pattern six_sales_record = Some ''Winter buyer''"
    by (simp add: six_sales_record_def)
  have l: "length (hd six_sales # tl six_sales) = 6" by code_simp
  have l3: "length three_txn_sales = 3" by code_simp
  note inst = seasonal_pattern_needs_six_transactions
         [of three_txn_sales test_config "''S''" "hd six_sales" "tl six_sales" six_sales_record]
  from inst[THEN conjunct1] l3
  have n: "identify_seasonal_patterns three_txn_sales = None" by simp
  from inst[THEN conjunct2, THEN conjunct1] a
  have "seasonal_pattern six_sales_record \<noteq> None
        \<longleftrightarrow> 6 \<le> length (hd six_sales # tl six_sales)"
    by blast
  with a s l l3 n show ?thesis by simp
qed


section \<open>Determinism and the clock\<close>




end
